theory Spec2Isabelle
  imports Main "HOL-Library.Word"
begin

unbundle bit_operations_syntax

section \<open>Data model\<close>

text \<open>
  The package works on Go byte slices (\<^verbatim>\<open>[]byte\<close>), on \<^verbatim>\<open>uint32\<close> values and on the
  fixed arrays \<^verbatim>\<open>TeaKey = [4]uint32\<close> and \<^verbatim>\<open>v [52]uint32\<close>.  Misuse ends in
  \<^verbatim>\<open>panic(em)\<close>; an index outside a slice or an array, and a division by zero, end in a
  run-time panic of Go.  A panic is a value of the model, and a panicking call returns
  the memory as it was when the panic was raised.

  Memory is a byte-addressed heap; a slice is a window (first address, length) into it,
  so two slices may be the same window, overlap or be disjoint, as in Go.  \<^verbatim>\<open>len\<close> of a
  slice is a Go \<^verbatim>\<open>int\<close> (64 bits wide on the usual platforms); it is never negative and
  is kept as a natural number, and the conversion \<^verbatim>\<open>uint32(len(in))\<close> truncates it to
  32 bits.
\<close>

type_synonym byte = "8 word"
type_synonym uint32 = "32 word"

datatype panic = Panic string | IndexOutOfRange | DivideByZero

definition em :: string where
  "em = ''xxtea: XXTEA cipher misuse! Read teh Docs, Luke!''"

definition delta :: uint32 where
  "delta = 0x9e3779b9"

type_synonym heap = "nat \<Rightarrow> byte"

record slice =
  ptr :: nat
  len :: nat

text \<open>\<^verbatim>\<open>d[i]\<close> read and written, with Go's bounds check.\<close>

definition rd :: "slice \<Rightarrow> int \<Rightarrow> heap \<Rightarrow> panic + byte" where
  "rd d i h = (if 0 \<le> i \<and> i < int (len d) then Inr (h (ptr d + nat i)) else Inl IndexOutOfRange)"

definition wr :: "slice \<Rightarrow> int \<Rightarrow> byte \<Rightarrow> heap \<Rightarrow> panic + heap" where
  "wr d i b h = (if 0 \<le> i \<and> i < int (len d) then Inr (h(ptr d + nat i := b)) else Inl IndexOutOfRange)"

text \<open>
  Sequencing: \<open>bnd\<close> stops at the first panic; \<open>bndh h\<close> does the same for a step that
  leaves the heap \<open>h\<close> behind when it panics.
\<close>

definition bnd :: "panic + 'a \<Rightarrow> ('a \<Rightarrow> panic + 'b) \<Rightarrow> panic + 'b" where
  "bnd r f = (case r of Inl e \<Rightarrow> Inl e | Inr x \<Rightarrow> f x)"

definition bndh :: "heap \<Rightarrow> panic + 'a \<Rightarrow> ('a \<Rightarrow> (panic \<times> heap) + 'b) \<Rightarrow> (panic \<times> heap) + 'b" where
  "bndh h r f = (case r of Inl e \<Rightarrow> Inl (e, h) | Inr x \<Rightarrow> f x)"

text \<open>
  The contents of a slice, the contents of \<open>d\<close> after a call that returned, and a heap
  holding given bytes from address 0 on.
\<close>

definition bytes :: "slice \<Rightarrow> heap \<Rightarrow> byte list" where
  "bytes d h = map (\<lambda>j. h (ptr d + j)) [0..<len d]"

definition result_bytes :: "slice \<Rightarrow> (panic \<times> heap) + heap \<Rightarrow> panic + byte list" where
  "result_bytes d r = (case r of Inl (e, h) \<Rightarrow> Inl e | Inr h \<Rightarrow> Inr (bytes d h))"

definition heap_of :: "byte list \<Rightarrow> heap" where
  "heap_of xs = (\<lambda>a. if a < length xs then xs ! a else 0)"

definition ascii :: "string \<Rightarrow> byte list" where
  "ascii s = map of_char s"

section \<open>The endian transforms\<close>

text \<open>
  \<^verbatim>\<open>func chk4len(l int) int { if l < 4 || l&3 != 0 { panic(em) }; return l - 1 }\<close>
\<close>

definition chk4len :: "int \<Rightarrow> panic + int" where
  "chk4len l = (if l < 4 \<or> l AND 3 \<noteq> 0 then Inl (Panic em) else Inr (l - 1))"

text \<open>
  \<^verbatim>\<open>AsBELE\<close>: one turn of the loop is the tuple assignment
  \<^verbatim>\<open>d[i+0], d[i+1], d[i+2], d[i+3], d[l-3], d[l-2], d[l-1], d[l] =
    d[l-3], d[l-2], d[l-1], d[l], d[i+0], d[i+1], d[i+2], d[i+3]\<close>:
  the eight values on the right are read first, then the eight cells are written from
  left to right (\<open>AsBELE_body\<close>); then \<^verbatim>\<open>l -= 4\<close> and \<^verbatim>\<open>i += 4\<close>.
\<close>

definition AsBELE_body :: "slice \<Rightarrow> int \<Rightarrow> int \<Rightarrow> heap \<Rightarrow> (panic \<times> heap) + heap" where
  "AsBELE_body d i l h =
     (
      bndh h (rd d (l - 3) h) (\<lambda>r0.
      bndh h (rd d (l - 2) h) (\<lambda>r1.
      bndh h (rd d (l - 1) h) (\<lambda>r2.
      bndh h (rd d l h) (\<lambda>r3.
      bndh h (rd d (i + 0) h) (\<lambda>r4.
      bndh h (rd d (i + 1) h) (\<lambda>r5.
      bndh h (rd d (i + 2) h) (\<lambda>r6.
      bndh h (rd d (i + 3) h) (\<lambda>r7.
      bndh h (wr d (i + 0) r0 h) (\<lambda>h0.
      bndh h0 (wr d (i + 1) r1 h0) (\<lambda>h1.
      bndh h1 (wr d (i + 2) r2 h1) (\<lambda>h2.
      bndh h2 (wr d (i + 3) r3 h2) (\<lambda>h3.
      bndh h3 (wr d (l - 3) r4 h3) (\<lambda>h4.
      bndh h4 (wr d (l - 2) r5 h4) (\<lambda>h5.
      bndh h5 (wr d (l - 1) r6 h5) (\<lambda>h6.
      bndh h6 (wr d l r7 h6) (\<lambda>h7.
      Inr h7)))))))))))))))))"

function AsBELE_loop :: "slice \<Rightarrow> int \<Rightarrow> int \<Rightarrow> heap \<Rightarrow> (panic \<times> heap) + heap" where
  "AsBELE_loop d i l h =
     (if i < l then
        (case AsBELE_body d i l h of Inl e \<Rightarrow> Inl e | Inr h' \<Rightarrow> AsBELE_loop d (i + 4) (l - 4) h')
      else Inr h)"
  by pat_completeness auto
termination
  by (relation "measure (\<lambda>(d, i, l, h). nat (l - i))") auto

definition AsBELE :: "slice \<Rightarrow> heap \<Rightarrow> (panic \<times> heap) + heap" where
  "AsBELE d h =
     (case chk4len (int (len d)) of Inl e \<Rightarrow> Inl (e, h) | Inr l \<Rightarrow> AsBELE_loop d 0 l h)"

text \<open>
  \<^verbatim>\<open>AsLEBE\<close>: the loop test \<^verbatim>\<open>i < chk4len(len(d))\<close> calls \<^verbatim>\<open>chk4len\<close> at every turn; the body
  is \<^verbatim>\<open>d[i+0], d[i+1], d[i+2], d[i+3] = d[i+3], d[i+2], d[i+1], d[i+0]\<close>.
\<close>

definition AsLEBE_body :: "slice \<Rightarrow> int \<Rightarrow> heap \<Rightarrow> (panic \<times> heap) + heap" where
  "AsLEBE_body d i h =
     (
      bndh h (rd d (i + 3) h) (\<lambda>r0.
      bndh h (rd d (i + 2) h) (\<lambda>r1.
      bndh h (rd d (i + 1) h) (\<lambda>r2.
      bndh h (rd d (i + 0) h) (\<lambda>r3.
      bndh h (wr d (i + 0) r0 h) (\<lambda>h0.
      bndh h0 (wr d (i + 1) r1 h0) (\<lambda>h1.
      bndh h1 (wr d (i + 2) r2 h1) (\<lambda>h2.
      bndh h2 (wr d (i + 3) r3 h2) (\<lambda>h3.
      Inr h3)))))))))"

function AsLEBE_loop :: "slice \<Rightarrow> int \<Rightarrow> heap \<Rightarrow> (panic \<times> heap) + heap" where
  "AsLEBE_loop d i h =
     (case chk4len (int (len d)) of Inl e \<Rightarrow> Inl (e, h) | Inr l \<Rightarrow>
      if i < l then
        (case AsLEBE_body d i h of Inl e \<Rightarrow> Inl e | Inr h' \<Rightarrow> AsLEBE_loop d (i + 4) h')
      else Inr h)"
  by pat_completeness auto
termination
  by (relation "measure (\<lambda>(d, i, h). nat (int (len d) - i))")
     (auto simp: chk4len_def split: if_splits)

definition AsLEBE :: "slice \<Rightarrow> heap \<Rightarrow> (panic \<times> heap) + heap" where
  "AsLEBE d h = AsLEBE_loop d 0 h"

text \<open>\<^verbatim>\<open>AsLELE\<close>: the body is \<^verbatim>\<open>d[i], d[l] = d[l], d[i]\<close>, then \<^verbatim>\<open>l--\<close> and \<^verbatim>\<open>i++\<close>.\<close>

definition AsLELE_body :: "slice \<Rightarrow> int \<Rightarrow> int \<Rightarrow> heap \<Rightarrow> (panic \<times> heap) + heap" where
  "AsLELE_body d i l h =
     (
      bndh h (rd d l h) (\<lambda>r0.
      bndh h (rd d i h) (\<lambda>r1.
      bndh h (wr d i r0 h) (\<lambda>h0.
      bndh h0 (wr d l r1 h0) (\<lambda>h1.
      Inr h1)))))"

function AsLELE_loop :: "slice \<Rightarrow> int \<Rightarrow> int \<Rightarrow> heap \<Rightarrow> (panic \<times> heap) + heap" where
  "AsLELE_loop d i l h =
     (if i < l then
        (case AsLELE_body d i l h of Inl e \<Rightarrow> Inl e | Inr h' \<Rightarrow> AsLELE_loop d (i + 1) (l - 1) h')
      else Inr h)"
  by pat_completeness auto
termination
  by (relation "measure (\<lambda>(d, i, l, h). nat (l - i))") auto

definition AsLELE :: "slice \<Rightarrow> heap \<Rightarrow> (panic \<times> heap) + heap" where
  "AsLELE d h =
     (case chk4len (int (len d)) of Inl e \<Rightarrow> Inl (e, h) | Inr l \<Rightarrow> AsLELE_loop d 0 l h)"

section \<open>Fixed arrays, keys and the round function\<close>

text \<open>
  A fixed array \<^verbatim>\<open>[N]uint32\<close> is a function from indices to words that is read and
  written below its bound \<open>N\<close> only (4 for \<^verbatim>\<open>TeaKey\<close>, 52 for the working vector \<^verbatim>\<open>v\<close>);
  its zero value is \<open>\<lambda>_. 0\<close>.
\<close>

type_synonym arr = "nat \<Rightarrow> uint32"
type_synonym TeaKey = arr

definition aget :: "nat \<Rightarrow> arr \<Rightarrow> int \<Rightarrow> panic + uint32" where
  "aget N v i = (if 0 \<le> i \<and> i < int N then Inr (v (nat i)) else Inl IndexOutOfRange)"

definition aset :: "nat \<Rightarrow> arr \<Rightarrow> int \<Rightarrow> uint32 \<Rightarrow> panic + arr" where
  "aset N v i x = (if 0 \<le> i \<and> i < int N then Inr (v(nat i := x)) else Inl IndexOutOfRange)"

text \<open>\<^verbatim>\<open>uint32(b0)<<24 | uint32(b1)<<16 | uint32(b2)<<8 | uint32(b3)\<close>\<close>

definition from_bytes :: "byte \<Rightarrow> byte \<Rightarrow> byte \<Rightarrow> byte \<Rightarrow> uint32" where
  "from_bytes b0 b1 b2 b3 =
     push_bit 24 (ucast b0) OR push_bit 16 (ucast b1) OR push_bit 8 (ucast b2) OR ucast b3"

text \<open>
  \<^verbatim>\<open>((z>>5 ^ y<<2) + (y>>3 ^ z<<4)) ^ ((sum ^ y) + (k[p&3^e] ^ z))\<close>, with the key word
  \<^verbatim>\<open>k[p&3^e]\<close> passed as \<open>kw\<close>.
\<close>

definition mx :: "uint32 \<Rightarrow> uint32 \<Rightarrow> uint32 \<Rightarrow> uint32 \<Rightarrow> uint32" where
  "mx y z sumw kw =
     ((drop_bit 5 z XOR push_bit 2 y) + (drop_bit 3 y XOR push_bit 4 z)) XOR ((sumw XOR y) + (kw XOR z))"

text \<open>\<^verbatim>\<open>52/n\<close> on \<^verbatim>\<open>uint32\<close>: Go panics when the divisor is zero.\<close>

definition udiv :: "uint32 \<Rightarrow> uint32 \<Rightarrow> panic + uint32" where
  "udiv a b = (if b = 0 then Inl DivideByZero else Inr (a div b))"


section \<open>Basic facts about sequencing, indexing and loop counters\<close>

lemma bnd_Inr [simp]: "bnd (Inr x) f = f x"
  by (simp add: bnd_def)

lemma bnd_Inl [simp]: "bnd (Inl e) f = Inl e"
  by (simp add: bnd_def)

lemma bndh_Inr [simp]: "bndh h (Inr x) f = f x"
  by (simp add: bndh_def)

lemma bndh_Inl [simp]: "bndh h (Inl e) f = Inl (e, h)"
  by (simp add: bndh_def)

lemma bnd_eq_Inr: "bnd r f = Inr y \<longleftrightarrow> (\<exists>x. r = Inr x \<and> f x = Inr y)"
  by (cases r) simp_all

lemma bndh_eq_Inr: "bndh h r f = Inr y \<longleftrightarrow> (\<exists>x. r = Inr x \<and> f x = Inr y)"
  by (cases r) simp_all

lemma aset_eq_Inr: "aset N v i x = Inr v' \<longleftrightarrow> 0 \<le> i \<and> i < int N \<and> v' = v(nat i := x)"
  by (auto simp: aset_def)

lemma aget_eq_Inr: "aget N v i = Inr x \<longleftrightarrow> 0 \<le> i \<and> i < int N \<and> x = v (nat i)"
  by (auto simp: aget_def)

lemma unat_drop2: "unat (drop_bit 2 (n :: uint32)) = unat n div 4"
  by (simp add: unat_drop_bit_eq drop_bit_eq_div unat_div_distrib)

lemma uint_drop2: "uint (drop_bit 2 (n :: uint32)) = int (unat n div 4)"
  unfolding unat_drop2[symmetric] by (rule uint_nat)

lemma drop2_bound: "uint (drop_bit 2 (n :: uint32)) < 52 \<Longrightarrow> unat n < 208"
  unfolding uint_drop2 by simp

lemma unat_succ: "(p :: uint32) < m \<Longrightarrow> unat (p + 1) = unat p + 1"
  by unat_arith

lemma unat_pred: "(r :: uint32) \<noteq> 0 \<Longrightarrow> unat (r - 1) = unat r - 1"
  by unat_arith

lemma unat_add4: "unat (n :: uint32) < 208 \<Longrightarrow> unat (n + 4) = unat n + 4"
  by (simp add: unat_word_ariths)

section \<open>NewKey\<close>

definition NewKey_body :: "slice \<Rightarrow> heap \<Rightarrow> int \<Rightarrow> TeaKey \<Rightarrow> uint32 \<Rightarrow> panic + (TeaKey \<times> uint32)" where
  "NewKey_body key h n k c =
     bnd (rd key n h) (\<lambda>b0.
     bnd (rd key (n + 1) h) (\<lambda>b1.
     bnd (rd key (n + 2) h) (\<lambda>b2.
     bnd (rd key (n + 3) h) (\<lambda>b3.
     bnd (aset 4 k (drop_bit 2 n) (from_bytes b0 b1 b2 b3)) (\<lambda>k'.
     bnd (aget 4 k' (drop_bit 2 n)) (\<lambda>w.
     Inr (k', c OR w)))))))"

function NewKey_loop :: "slice \<Rightarrow> heap \<Rightarrow> int \<Rightarrow> TeaKey \<Rightarrow> uint32 \<Rightarrow> panic + (TeaKey \<times> uint32)" where
  "NewKey_loop key h n k c =
     (if n < 16 then
        (case NewKey_body key h n k c of Inl e \<Rightarrow> Inl e | Inr (k', c') \<Rightarrow> NewKey_loop key h (n + 4) k' c')
      else Inr (k, c))"
  by pat_completeness auto
termination
  by (relation "measure (\<lambda>(key, h, n, k, c). nat (16 - n))") auto

definition NewKey :: "slice \<Rightarrow> heap \<Rightarrow> (panic \<times> heap) + TeaKey" where
  "NewKey key h =
     (if int (len key) \<noteq> 16 then Inl (Panic em, h)
      else bndh h (NewKey_loop key h 0 (\<lambda>_. 0) 0) (\<lambda>(k, c).
           if c = 0 then Inl (Panic em, h) else Inr k))"

section \<open>Encrypt and Decrypt\<close>

text \<open>The loop that loads the words of \<^verbatim>\<open>in\<close> into \<^verbatim>\<open>v\<close> (the same in both functions).\<close>

definition load_body :: "slice \<Rightarrow> heap \<Rightarrow> uint32 \<Rightarrow> arr \<Rightarrow> panic + arr" where
  "load_body inp h n v =
     bnd (rd inp (uint n) h) (\<lambda>b0.
     bnd (rd inp (uint (n + 1)) h) (\<lambda>b1.
     bnd (rd inp (uint (n + 2)) h) (\<lambda>b2.
     bnd (rd inp (uint (n + 3)) h) (\<lambda>b3.
     aset 52 v (uint (drop_bit 2 n)) (from_bytes b0 b1 b2 b3)))))"

lemma load_body_bound: "load_body inp h n v = Inr v' \<Longrightarrow> unat n < 208"
  by (auto simp: load_body_def bnd_eq_Inr aset_eq_Inr intro: drop2_bound)

function load_loop :: "slice \<Rightarrow> heap \<Rightarrow> uint32 \<Rightarrow> uint32 \<Rightarrow> arr \<Rightarrow> panic + arr" where
  "load_loop inp h z n v =
     (if n < z then
        (case load_body inp h n v of Inl e \<Rightarrow> Inl e | Inr v' \<Rightarrow> load_loop inp h z (n + 4) v')
      else Inr v)"
  by pat_completeness auto
termination load_loop
  apply (relation "measure (\<lambda>(inp, h, z, n, v). 212 - unat n)")
  apply simp
  apply (drule load_body_bound)
  apply (simp add: unat_add4)
  done

text \<open>The loop that writes the words of \<^verbatim>\<open>v\<close> to \<^verbatim>\<open>out\<close> (the same in both functions).\<close>

definition store_body :: "slice \<Rightarrow> arr \<Rightarrow> uint32 \<Rightarrow> heap \<Rightarrow> (panic \<times> heap) + heap" where
  "store_body out v n h =
     bndh h (aget 52 v (uint (drop_bit 2 n))) (\<lambda>k.
     bndh h (wr out (uint n) (ucast (drop_bit 24 k)) h) (\<lambda>h0.
     bndh h0 (wr out (uint (n + 1)) (ucast (drop_bit 16 k)) h0) (\<lambda>h1.
     bndh h1 (wr out (uint (n + 2)) (ucast (drop_bit 8 k)) h1) (\<lambda>h2.
     bndh h2 (wr out (uint (n + 3)) (ucast k) h2) (\<lambda>h3.
     Inr h3)))))"

lemma store_body_bound: "store_body out v n h = Inr h' \<Longrightarrow> unat n < 208"
  by (auto simp: store_body_def bndh_eq_Inr aget_eq_Inr intro: drop2_bound)

function store_loop :: "slice \<Rightarrow> arr \<Rightarrow> uint32 \<Rightarrow> heap \<Rightarrow> (panic \<times> heap) + heap" where
  "store_loop out v n h =
     (if n < of_nat (len out) then
        (case store_body out v n h of Inl e \<Rightarrow> Inl e | Inr h' \<Rightarrow> store_loop out v (n + 4) h')
      else Inr h)"
  by pat_completeness auto
termination store_loop
  apply (relation "measure (\<lambda>(out, v, n, h). 212 - unat n)")
  apply simp
  apply (drule store_body_bound)
  apply (simp add: unat_add4)
  done

text \<open>Encrypt: one turn of the inner loop, the step after it, one round, all rounds.\<close>

definition enc_step :: "TeaKey \<Rightarrow> uint32 \<Rightarrow> uint32 \<Rightarrow> uint32 \<Rightarrow> uint32 \<Rightarrow> arr \<Rightarrow> panic + (uint32 \<times> uint32 \<times> arr)" where
  "enc_step k sumw e p z v =
     bnd (aget 52 v (uint (p + 1))) (\<lambda>y.
     bnd (aget 4 k (uint ((p AND 3) XOR e))) (\<lambda>kw.
     bnd (aget 52 v (uint p)) (\<lambda>vp.
     bnd (aset 52 v (uint p) (vp + mx y z sumw kw)) (\<lambda>v'.
     bnd (aget 52 v' (uint p)) (\<lambda>z'.
     Inr (y, z', v'))))))"

function enc_inner :: "TeaKey \<Rightarrow> uint32 \<Rightarrow> uint32 \<Rightarrow> uint32 \<Rightarrow> uint32 \<Rightarrow> uint32 \<Rightarrow> uint32 \<Rightarrow> arr
    \<Rightarrow> panic + (uint32 \<times> uint32 \<times> uint32 \<times> arr)" where
  "enc_inner k n sumw e p y z v =
     (if p < n - 1 then
        (case enc_step k sumw e p z v of Inl x \<Rightarrow> Inl x
         | Inr (y', z', v') \<Rightarrow> enc_inner k n sumw e (p + 1) y' z' v')
      else Inr (p, y, z, v))"
  by pat_completeness auto
termination
  by (relation "measure (\<lambda>(k, n, sumw, e, p, y, z, v). unat (n - 1) - unat p)")
     (simp_all add: unat_succ word_less_nat_alt)

definition enc_last :: "TeaKey \<Rightarrow> uint32 \<Rightarrow> uint32 \<Rightarrow> uint32 \<Rightarrow> uint32 \<Rightarrow> uint32 \<Rightarrow> arr \<Rightarrow> panic + (uint32 \<times> uint32 \<times> arr)" where
  "enc_last k n sumw e p z v =
     bnd (aget 52 v 0) (\<lambda>y.
     bnd (aget 4 k (uint ((p AND 3) XOR e))) (\<lambda>kw.
     bnd (aget 52 v (uint (n - 1))) (\<lambda>vn.
     bnd (aset 52 v (uint (n - 1)) (vn + mx y z sumw kw)) (\<lambda>v'.
     bnd (aget 52 v' (uint (n - 1))) (\<lambda>z'.
     Inr (y, z', v'))))))"

definition enc_round :: "TeaKey \<Rightarrow> uint32 \<Rightarrow> uint32 \<Rightarrow> uint32 \<Rightarrow> uint32 \<Rightarrow> arr
    \<Rightarrow> panic + (uint32 \<times> uint32 \<times> uint32 \<times> arr)" where
  "enc_round k n sumw y z v =
     (let e = drop_bit 2 sumw AND 3 in
      bnd (enc_inner k n sumw e 0 y z v) (\<lambda>(p, y, z, v).
      bnd (enc_last k n sumw e p z v) (\<lambda>(y, z, v).
      Inr (p, y, z, v))))"

function enc_rounds :: "TeaKey \<Rightarrow> uint32 \<Rightarrow> uint32 \<Rightarrow> uint32 \<Rightarrow> uint32 \<Rightarrow> uint32 \<Rightarrow> uint32 \<Rightarrow> arr
    \<Rightarrow> panic + arr" where
  "enc_rounds k n rounds sumw p y z v =
     (if rounds > 0 then
        (case enc_round k n (sumw + delta) y z v of Inl x \<Rightarrow> Inl x
         | Inr (p', y', z', v') \<Rightarrow> enc_rounds k n (rounds - 1) (sumw + delta) p' y' z' v')
      else Inr v)"
  by pat_completeness auto
termination
  by (relation "measure (\<lambda>(k, n, rounds, sumw, p, y, z, v). unat rounds)")
     (simp_all add: unat_pred unat_gt_0 word_greater_zero_iff)


definition Encrypt :: "TeaKey \<Rightarrow> slice \<Rightarrow> slice \<Rightarrow> heap \<Rightarrow> (panic \<times> heap) + heap" where
  "Encrypt k inp out h =
     (let z = (of_nat (len inp) :: uint32) in
      if z < 12 \<or> z > 208 \<or> z AND 3 \<noteq> 0 \<or> z \<noteq> of_nat (len out) then Inl (Panic em, h)
      else
        bndh h (load_loop inp h z 0 (\<lambda>_. 0)) (\<lambda>v.
        let n = drop_bit 2 z in
        bndh h (udiv 52 n) (\<lambda>q.
        let rounds = 6 + q in
        bndh h (aget 52 v (uint (n - 1))) (\<lambda>z.
        bndh h (enc_rounds k n rounds 0 0 0 z v) (\<lambda>v.
        store_loop out v 0 h)))))"

text \<open>Decrypt: the same parts, downwards.\<close>

definition dec_step :: "TeaKey \<Rightarrow> uint32 \<Rightarrow> uint32 \<Rightarrow> uint32 \<Rightarrow> uint32 \<Rightarrow> arr \<Rightarrow> panic + (uint32 \<times> uint32 \<times> arr)" where
  "dec_step k sumw e p y v =
     bnd (aget 52 v (uint (p - 1))) (\<lambda>z.
     bnd (aget 4 k (uint ((p AND 3) XOR e))) (\<lambda>kw.
     bnd (aget 52 v (uint p)) (\<lambda>vp.
     bnd (aset 52 v (uint p) (vp - mx y z sumw kw)) (\<lambda>v'.
     bnd (aget 52 v' (uint p)) (\<lambda>y'.
     Inr (y', z, v'))))))"

function dec_inner :: "TeaKey \<Rightarrow> uint32 \<Rightarrow> uint32 \<Rightarrow> uint32 \<Rightarrow> uint32 \<Rightarrow> uint32 \<Rightarrow> arr
    \<Rightarrow> panic + (uint32 \<times> uint32 \<times> uint32 \<times> arr)" where
  "dec_inner k sumw e p y z v =
     (if p > 0 then
        (case dec_step k sumw e p y v of Inl x \<Rightarrow> Inl x
         | Inr (y', z', v') \<Rightarrow> dec_inner k sumw e (p - 1) y' z' v')
      else Inr (p, y, z, v))"
  by pat_completeness auto
termination
  by (relation "measure (\<lambda>(k, sumw, e, p, y, z, v). unat p)")
     (simp_all add: unat_pred unat_gt_0 word_greater_zero_iff)

definition dec_last :: "TeaKey \<Rightarrow> uint32 \<Rightarrow> uint32 \<Rightarrow> uint32 \<Rightarrow> uint32 \<Rightarrow> uint32 \<Rightarrow> arr \<Rightarrow> panic + (uint32 \<times> uint32 \<times> arr)" where
  "dec_last k n sumw e p y v =
     bnd (aget 52 v (uint (n - 1))) (\<lambda>z.
     bnd (aget 4 k (uint ((p AND 3) XOR e))) (\<lambda>kw.
     bnd (aget 52 v 0) (\<lambda>v0.
     bnd (aset 52 v 0 (v0 - mx y z sumw kw)) (\<lambda>v'.
     bnd (aget 52 v' 0) (\<lambda>y'.
     Inr (y', z, v'))))))"

definition dec_round :: "TeaKey \<Rightarrow> uint32 \<Rightarrow> uint32 \<Rightarrow> uint32 \<Rightarrow> uint32 \<Rightarrow> arr
    \<Rightarrow> panic + (uint32 \<times> uint32 \<times> uint32 \<times> arr)" where
  "dec_round k n sumw y z v =
     (let e = drop_bit 2 sumw AND 3 in
      bnd (dec_inner k sumw e (n - 1) y z v) (\<lambda>(p, y, z, v).
      bnd (dec_last k n sumw e p y v) (\<lambda>(y, z, v).
      Inr (p, y, z, v))))"

function dec_rounds :: "TeaKey \<Rightarrow> uint32 \<Rightarrow> uint32 \<Rightarrow> uint32 \<Rightarrow> uint32 \<Rightarrow> uint32 \<Rightarrow> uint32 \<Rightarrow> arr
    \<Rightarrow> panic + arr" where
  "dec_rounds k n rounds sumw p y z v =
     (if rounds > 0 then
        (case dec_round k n sumw y z v of Inl x \<Rightarrow> Inl x
         | Inr (p', y', z', v') \<Rightarrow> dec_rounds k n (rounds - 1) (sumw - delta) p' y' z' v')
      else Inr v)"
  by pat_completeness auto
termination
  by (relation "measure (\<lambda>(k, n, rounds, sumw, p, y, z, v). unat rounds)")
     (simp_all add: unat_pred unat_gt_0 word_greater_zero_iff)

definition Decrypt :: "TeaKey \<Rightarrow> slice \<Rightarrow> slice \<Rightarrow> heap \<Rightarrow> (panic \<times> heap) + heap" where
  "Decrypt k inp out h =
     (let y = (of_nat (len inp) :: uint32) in
      if y < 12 \<or> y > 208 \<or> y AND 3 \<noteq> 0 \<or> y \<noteq> of_nat (len out) then Inl (Panic em, h)
      else
        bndh h (load_loop inp h y 0 (\<lambda>_. 0)) (\<lambda>v.
        let n = drop_bit 2 y in
        bndh h (udiv 52 n) (\<lambda>q.
        let rounds = 6 + q in
        bndh h (aget 52 v 0) (\<lambda>y.
        let sumw = rounds * delta in
        bndh h (dec_rounds k n rounds sumw 0 y 0 v) (\<lambda>v.
        store_loop out v 0 h)))))"

declare AsBELE_loop.simps [simp del] AsLEBE_loop.simps [simp del] AsLELE_loop.simps [simp del]
declare NewKey_loop.simps [simp del] load_loop.simps [simp del] store_loop.simps [simp del]
declare enc_inner.simps [simp del] enc_rounds.simps [simp del]
declare dec_inner.simps [simp del] dec_rounds.simps [simp del]

section \<open>The byte-layout table\<close>

lemmas eval_defs = chk4len_def rd_def wr_def bytes_def heap_of_def ascii_def result_bytes_def upt_rec

text \<open>
  Claim C8.  On the 16-byte vectors of the byte-layout table each transform recovers the
  canonical layout: \<open>AsBELE\<close> (ReverseWordOrder) maps \<^verbatim>\<open>CDEF89AB45670123\<close>,
  \<open>AsLEBE\<close> (ReverseBytesPerWord) maps \<^verbatim>\<open>32107654BA98FEDC\<close> and \<open>AsLELE\<close> (ReverseWhole)
  maps \<^verbatim>\<open>FEDCBA9876543210\<close> to \<^verbatim>\<open>0123456789ABCDEF\<close>.
\<close>

theorem canonical_layouts:
  "result_bytes \<lparr>ptr = 0, len = 16\<rparr> (AsBELE \<lparr>ptr = 0, len = 16\<rparr> (heap_of (ascii ''CDEF89AB45670123'')))
     = Inr (ascii ''0123456789ABCDEF'') \<and>
   result_bytes \<lparr>ptr = 0, len = 16\<rparr> (AsLEBE \<lparr>ptr = 0, len = 16\<rparr> (heap_of (ascii ''32107654BA98FEDC'')))
     = Inr (ascii ''0123456789ABCDEF'') \<and>
   result_bytes \<lparr>ptr = 0, len = 16\<rparr> (AsLELE \<lparr>ptr = 0, len = 16\<rparr> (heap_of (ascii ''FEDCBA9876543210'')))
     = Inr (ascii ''0123456789ABCDEF'')"
proof (intro conjI)
  show "result_bytes \<lparr>ptr = 0, len = 16\<rparr> (AsBELE \<lparr>ptr = 0, len = 16\<rparr> (heap_of (ascii ''CDEF89AB45670123'')))
     = Inr (ascii ''0123456789ABCDEF'')"
    by (simp add: AsBELE_def AsBELE_loop.simps AsBELE_body_def eval_defs)
  show "result_bytes \<lparr>ptr = 0, len = 16\<rparr> (AsLEBE \<lparr>ptr = 0, len = 16\<rparr> (heap_of (ascii ''32107654BA98FEDC'')))
     = Inr (ascii ''0123456789ABCDEF'')"
    by (simp add: AsLEBE_def AsLEBE_loop.simps AsLEBE_body_def eval_defs)
  show "result_bytes \<lparr>ptr = 0, len = 16\<rparr> (AsLELE \<lparr>ptr = 0, len = 16\<rparr> (heap_of (ascii ''FEDCBA9876543210'')))
     = Inr (ascii ''0123456789ABCDEF'')"
    by (simp add: AsLELE_def AsLELE_loop.simps AsLELE_body_def eval_defs)
qed

end
